theory Spec2Isabelle
  imports Complex_Main "HOL-Library.Word"
begin

unbundle bit_operations_syntax

section \<open>Strings\<close>

text \<open>
  A Python \<open>str\<close> is modelled as a \<open>string\<close> (a list of \<open>char\<close>), each \<open>char\<close> read as
  the code point of the same number, so the texts of the model are the Python strings over
  the code points 0 to 255.

  \<open>isspace\<close> is the whitespace test that both \<open>str.strip()\<close> and the regular expression
  class \<open>\s\<close> (on a \<open>str\<close> pattern) use: the code points 9 to 13, 28 to 32, 133 and 160
  in this range.
\<close>

definition isspace :: "char \<Rightarrow> bool" where
  "isspace c =
     (let n = (of_char c :: nat)
      in (9 \<le> n \<and> n \<le> 13) \<or> (28 \<le> n \<and> n \<le> 32) \<or> n = 133 \<or> n = 160)"

definition lstrip :: "string \<Rightarrow> string" where
  "lstrip s = dropWhile isspace s"

definition rstrip :: "string \<Rightarrow> string" where
  "rstrip s = rev (dropWhile isspace (rev s))"

text \<open>\<open>s.strip()\<close>: whitespace removed at both ends.\<close>

definition strip :: "string \<Rightarrow> string" where
  "strip s = rstrip (lstrip s)"

section \<open>Ingestion: the chunker\<close>

text \<open>
  \<open>src/lambdas/ingestion/handler.py\<close>, \<open>chunk_text\<close>.

  The sentence pattern is \<open>(?<=[.!?;])\s+\<close>: a separator is a maximal run of whitespace
  whose preceding character is one of \<open>. ! ? ;\<close>. \<open>is_sentence_end\<close> is the character
  class of the lookbehind.
\<close>

definition is_sentence_end :: "char \<Rightarrow> bool" where
  "is_sentence_end c = (c = CHR ''.'' \<or> c = CHR ''!'' \<or> c = CHR ''?'' \<or> c = CHR '';'')"

text \<open>
  \<open>sentence_pattern.split(text)\<close>. \<open>split_from cur rest\<close> scans \<open>rest\<close> with \<open>cur\<close> the
  piece read so far; at a sentence end followed by whitespace the piece is closed and the
  whole whitespace run is skipped. The last piece is always returned, also when empty, as
  \<open>re.split\<close> does.
\<close>

function split_from :: "string \<Rightarrow> string \<Rightarrow> string list" where
  "split_from cur [] = [cur]"
| "split_from cur (c # cs) =
     (if is_sentence_end c \<and> cs \<noteq> [] \<and> isspace (hd cs)
      then (cur @ [c]) # split_from [] (dropWhile isspace cs)
      else split_from (cur @ [c]) cs)"
  by pat_completeness auto
termination
  by (relation "measure (\<lambda>(cur, rest). length rest)")
     (auto simp: le_imp_less_Suc length_dropWhile_le)

definition split_sentences :: "string \<Rightarrow> string list" where
  "split_sentences txt = split_from [] txt"

text \<open>The dataclass \<open>TextChunk\<close>; its field \<open>text\<close> is \<open>text_tc\<close> here.\<close>

record TextChunk =
  text_tc :: string
  chunk_index :: nat
  start_char :: int
  end_char :: int

text \<open>The local variables of the loop of \<open>chunk_text\<close>.\<close>

record chunk_state =
  chunks :: "TextChunk list"
  current_text :: string
  current_start :: int
  char_pos :: int

text \<open>
  One iteration of \<open>for sentence in sentences\<close>. \<open>chunk_size\<close> and \<open>overlap\<close> are Python
  integers, so they are \<open>int\<close> here and may be negative; \<open>overlap_start\<close> is at least 0,
  so the slice \<open>current_text[overlap_start:]\<close> drops that many characters.
\<close>

definition chunk_step :: "int \<Rightarrow> int \<Rightarrow> chunk_state \<Rightarrow> string \<Rightarrow> chunk_state" where
  "chunk_step chunk_size overlap st sentence =
     (let st' =
        (if int (length (current_text st)) + int (length sentence) > chunk_size
            \<and> current_text st \<noteq> []
         then
           (let emitted = \<lparr>text_tc = strip (current_text st),
                           chunk_index = length (chunks st),
                           start_char = current_start st,
                           end_char = char_pos st\<rparr>;
                overlap_start = max 0 (int (length (current_text st)) - overlap);
                new_text = drop (nat overlap_start) (current_text st) @ '' '' @ sentence
            in st\<lparr>chunks := chunks st @ [emitted],
                  current_text := new_text,
                  current_start :=
                    char_pos st - (int (length new_text) - int (length sentence) - 1)\<rparr>)
         else
           st\<lparr>current_text :=
                 (if current_text st \<noteq> [] then current_text st @ '' '' @ sentence
                  else sentence)\<rparr>)
      in st'\<lparr>char_pos := char_pos st' + int (length sentence) + 1\<rparr>)"

definition chunk_init :: chunk_state where
  "chunk_init = \<lparr>chunks = [], current_text = [], current_start = 0, char_pos = 0\<rparr>"

definition chunk_loop :: "int \<Rightarrow> int \<Rightarrow> string list \<Rightarrow> chunk_state" where
  "chunk_loop chunk_size overlap sentences =
     foldl (chunk_step chunk_size overlap) chunk_init sentences"

text \<open>The last chunk, appended when the buffer is not blank.\<close>

definition chunk_finish :: "chunk_state \<Rightarrow> TextChunk list" where
  "chunk_finish st =
     (if strip (current_text st) \<noteq> []
      then chunks st @ [\<lparr>text_tc = strip (current_text st),
                         chunk_index = length (chunks st),
                         start_char = current_start st,
                         end_char = char_pos st\<rparr>]
      else chunks st)"

definition chunk_text :: "string \<Rightarrow> int \<Rightarrow> int \<Rightarrow> TextChunk list" where
  "chunk_text txt chunk_size overlap =
     chunk_finish (chunk_loop chunk_size overlap (split_sentences txt))"

section \<open>SHA-256\<close>

text \<open>
  \<open>hashlib.sha256\<close> is not code of the repository; it is FIPS 180-4 SHA-256, written out here
  so that a cache key can be computed. A 32-bit word is an \<open>int\<close> in the range from 0 below
  \<open>2 ^ 32\<close>, with the wrap-around written as \<open>take_bit 32\<close>; a byte is an \<open>int\<close> below 256.
\<close>

definition rotr :: "nat \<Rightarrow> int \<Rightarrow> int" where
  "rotr n x = drop_bit n x OR push_bit (32 - n) (take_bit n x)"

definition Ch :: "int \<Rightarrow> int \<Rightarrow> int \<Rightarrow> int" where
  "Ch x y z = (x AND y) XOR ((x XOR 0xffffffff) AND z)"

definition Maj :: "int \<Rightarrow> int \<Rightarrow> int \<Rightarrow> int" where
  "Maj x y z = (x AND y) XOR (x AND z) XOR (y AND z)"

definition Sigma0 :: "int \<Rightarrow> int" where
  "Sigma0 x = rotr 2 x XOR rotr 13 x XOR rotr 22 x"

definition Sigma1 :: "int \<Rightarrow> int" where
  "Sigma1 x = rotr 6 x XOR rotr 11 x XOR rotr 25 x"

definition sigma0 :: "int \<Rightarrow> int" where
  "sigma0 x = rotr 7 x XOR rotr 18 x XOR drop_bit 3 x"

definition sigma1 :: "int \<Rightarrow> int" where
  "sigma1 x = rotr 17 x XOR rotr 19 x XOR drop_bit 10 x"

definition sha256_K :: "int list" where
  "sha256_K =
     [1116352408, 1899447441, 3049323471, 3921009573,
      961987163, 1508970993, 2453635748, 2870763221,
      3624381080, 310598401, 607225278, 1426881987,
      1925078388, 2162078206, 2614888103, 3248222580,
      3835390401, 4022224774, 264347078, 604807628,
      770255983, 1249150122, 1555081692, 1996064986,
      2554220882, 2821834349, 2952996808, 3210313671,
      3336571891, 3584528711, 113926993, 338241895,
      666307205, 773529912, 1294757372, 1396182291,
      1695183700, 1986661051, 2177026350, 2456956037,
      2730485921, 2820302411, 3259730800, 3345764771,
      3516065817, 3600352804, 4094571909, 275423344,
      430227734, 506948616, 659060556, 883997877,
      958139571, 1322822218, 1537002063, 1747873779,
      1955562222, 2024104815, 2227730452, 2361852424,
      2428436474, 2756734187, 3204031479, 3329325298]"

definition sha256_H0 :: "int list" where
  "sha256_H0 =
     [1779033703, 3144134277, 1013904242, 2773480762,
      1359893119, 2600822924, 528734635, 1541459225]"

text \<open>The message length in bits as eight bytes, most significant first.\<close>

definition length_bytes :: "int \<Rightarrow> int list" where
  "length_bytes n = map (\<lambda>k. take_bit 8 (drop_bit (8 * k) n)) [7, 6, 5, 4, 3, 2, 1, 0]"

definition sha256_pad :: "int list \<Rightarrow> int list" where
  "sha256_pad m =
     (let l = length m
      in m @ [0x80] @ replicate ((119 - l mod 64) mod 64) 0 @ length_bytes (8 * int l))"

fun be32 :: "int list \<Rightarrow> int list" where
  "be32 (a # b # c # d # rest) =
     (push_bit 24 a OR push_bit 16 b OR push_bit 8 c OR d) # be32 rest"
| "be32 _ = []"

fun blocks16 :: "int list \<Rightarrow> int list list" where
  "blocks16 [] = []"
| "blocks16 (w # ws) = take 16 (w # ws) # blocks16 (drop 16 (w # ws))"

definition schedule_step :: "int list \<Rightarrow> nat \<Rightarrow> int list" where
  "schedule_step w t =
     w @ [take_bit 32
            (sigma1 (w ! (t - 2)) + w ! (t - 7) + sigma0 (w ! (t - 15)) + w ! (t - 16))]"

definition schedule :: "int list \<Rightarrow> int list" where
  "schedule block = foldl schedule_step block [16..<64]"

type_synonym sha_state = "int \<times> int \<times> int \<times> int \<times> int \<times> int \<times> int \<times> int"

definition sha256_round :: "sha_state \<Rightarrow> int \<times> int \<Rightarrow> sha_state" where
  "sha256_round s kw =
     (case s of (a, b, c, d, e, f, g, h) \<Rightarrow>
        (let t1 = take_bit 32 (h + Sigma1 e + Ch e f g + fst kw + snd kw);
             t2 = take_bit 32 (Sigma0 a + Maj a b c)
         in (take_bit 32 (t1 + t2), a, b, c, take_bit 32 (d + t1), e, f, g)))"

definition sha256_compress :: "sha_state \<Rightarrow> int list \<Rightarrow> sha_state" where
  "sha256_compress s block =
     (case s of (a, b, c, d, e, f, g, h) \<Rightarrow>
        (case foldl sha256_round s (zip sha256_K (schedule block)) of
           (a', b', c', d', e', f', g', h') \<Rightarrow>
             (take_bit 32 (a + a'), take_bit 32 (b + b'), take_bit 32 (c + c'),
              take_bit 32 (d + d'), take_bit 32 (e + e'), take_bit 32 (f + f'),
              take_bit 32 (g + g'), take_bit 32 (h + h'))))"

definition sha256 :: "int list \<Rightarrow> int list" where
  "sha256 m =
     (case foldl sha256_compress
             (sha256_H0 ! 0, sha256_H0 ! 1, sha256_H0 ! 2, sha256_H0 ! 3,
              sha256_H0 ! 4, sha256_H0 ! 5, sha256_H0 ! 6, sha256_H0 ! 7)
             (blocks16 (be32 (sha256_pad m))) of
        (a, b, c, d, e, f, g, h) \<Rightarrow> [a, b, c, d, e, f, g, h])"

definition hex32 :: "int \<Rightarrow> string" where
  "hex32 w =
     map (\<lambda>k. ''0123456789abcdef'' ! nat (take_bit 4 (drop_bit (4 * k) w)))
       [7, 6, 5, 4, 3, 2, 1, 0]"

text \<open>\<open>.hexdigest()\<close>: 64 lower-case hexadecimal digits.\<close>

definition hexdigest :: "int list \<Rightarrow> string" where
  "hexdigest ws = concat (map hex32 ws)"

text \<open>
  \<open>s.encode()\<close>: UTF-8. A code point below 128 is one byte, the others of the range are
  two bytes.
\<close>

definition encode :: "string \<Rightarrow> int list" where
  "encode s =
     concat (map (\<lambda>c. let n = (of_char c :: int)
                        in if n < 128 then [n]
                           else [192 + drop_bit 6 n, 128 + take_bit 6 n]) s)"

section \<open>Query: cache key\<close>

text \<open>
  \<open>src/lambdas/query/handler.py\<close>. \<open>s.lower()\<close> on the code points 0 to 255: the letters
  \<open>A\<close> to \<open>Z\<close> and the code points 192 to 222 other than 215 move up by 32, the others stay.
\<close>

definition lower_char :: "char \<Rightarrow> char" where
  "lower_char c =
     (let n = (of_char c :: nat)
      in if (65 \<le> n \<and> n \<le> 90) \<or> (192 \<le> n \<and> n \<le> 222 \<and> n \<noteq> 215)
         then char_of (n + 32) else c)"

definition lower :: "string \<Rightarrow> string" where
  "lower s = map lower_char s"

definition get_cache_key :: "string \<Rightarrow> string" where
  "get_cache_key query =
     (let normalized = strip (lower query)
      in take 32 (hexdigest (sha256 (encode normalized))))"

section \<open>Query: data and environment\<close>

text \<open>
  Floats (scores, clock readings, costs) are modelled as reals: comparisons are exact.
  What \<open>round(x, n)\<close> returns for a float depends on its binary value, so the rounding
  function is not fixed here: it is taken from the environment, as \<open>py_round\<close>. A metadata
  dictionary is a map from key to string value. In the dataclass \<open>SearchResult\<close> the
  fields \<open>text\<close>, \<open>score\<close> and \<open>metadata\<close> carry the suffix \<open>_sr\<close>.
\<close>

type_synonym metadata = "string \<rightharpoonup> string"

datatype exn = Exception string

record pinecone_match =
  match_id :: string
  match_score :: real
  match_metadata :: metadata

record SearchResult =
  chunk_id :: string
  document_id :: string
  text_sr :: string
  score_sr :: real
  metadata_sr :: metadata

record QueryMetrics =
  embedding_ms :: real
  search_ms :: real
  llm_ms :: real
  total_ms :: real
  tokens_used :: int
  cost_usd :: real
  cache_hit :: bool

text \<open>One entry of \<open>sources\<close>, and the response dictionary.\<close>

record source =
  src_document_id :: string
  src_filename :: string
  src_score :: real
  src_chunk_id :: string

record response =
  answer :: string
  sources :: "source list"
  context_used :: nat

record message =
  role :: string
  content :: string

text \<open>
  An item of the cache table. \<open>item.get("expires_at", 0)\<close> and \<open>item.get("response")\<close>
  allow either attribute to be absent.
\<close>

record cache_item =
  item_response :: "response option"
  item_expires_at :: "real option"

text \<open>The module constants read from the process environment, with their defaults.\<close>

record config =
  CACHE_ENABLED :: bool
  CACHE_TTL :: int
  TOP_K :: int
  SIMILARITY_THRESHOLD :: real

definition default_config :: config where
  "default_config =
     \<lparr>CACHE_ENABLED = True, CACHE_TTL = 3600, TOP_K = 5, SIMILARITY_THRESHOLD = 7 / 10\<rparr>"

text \<open>
  What the handler does not own: the embedding, vector index and chat completion calls
  (\<open>Inl\<close> is the exception the client raises), whether calls to the cache table succeed,
  the clock, as the sequence of values that successive \<open>time.time()\<close> calls return, and
  the built-in \<open>round\<close> on floats. The Greek literals of the prompt are outside the
  character range of the model, so the prompt texts are taken from here as well.
\<close>

record services =
  embeddings_create :: "string \<Rightarrow> exn + real list"
  index_query :: "real list \<Rightarrow> int \<Rightarrow> (string \<times> string) list option \<Rightarrow> exn + pinecone_match list"
  chat_completions_create :: "message list \<Rightarrow> exn + string \<times> int"
  dynamodb_available :: bool
  clock :: "nat \<Rightarrow> real"
  py_round :: "real \<Rightarrow> nat \<Rightarrow> real"
  system_prompt :: string
  user_prompt_head :: string
  user_prompt_mid :: string
  user_prompt_tail :: string
  no_documents_context :: string

datatype call =
  EmbeddingsCreate string
| IndexQuery "real list"
| ChatCompletionsCreate "message list"
| TableGetItem string
| TablePutItem string

text \<open>
  The state a query runs in: the content of the cache table, how many times the clock was
  read, and the calls made to the outside so far, oldest first.
\<close>

record world =
  cache_table :: "string \<rightharpoonup> cache_item"
  clock_reads :: nat
  calls :: "call list"

definition now :: "services \<Rightarrow> world \<Rightarrow> real \<times> world" where
  "now sv w = (clock sv (clock_reads w), w\<lparr>clock_reads := Suc (clock_reads w)\<rparr>)"

definition record_call :: "call \<Rightarrow> world \<Rightarrow> world" where
  "record_call c w = w\<lparr>calls := calls w @ [c]\<rparr>"

text \<open>\<open>int(x)\<close> on a float: truncation towards zero.\<close>

definition py_int :: "real \<Rightarrow> int" where
  "py_int x = (if 0 \<le> x then \<lfloor>x\<rfloor> else \<lceil>x\<rceil>)"

text \<open>\<open>s.split()\<close>: the maximal runs of characters that are not whitespace.\<close>

fun split_ws_from :: "string \<Rightarrow> string \<Rightarrow> string list" where
  "split_ws_from cur [] = (if cur = [] then [] else [cur])"
| "split_ws_from cur (c # cs) =
     (if isspace c
      then (if cur = [] then split_ws_from [] cs else cur # split_ws_from [] cs)
      else split_ws_from (cur @ [c]) cs)"

definition split_ws :: "string \<Rightarrow> string list" where
  "split_ws s = split_ws_from [] s"

text \<open>\<open>str(i)\<close> for an index, and \<open>sep.join(parts)\<close>.\<close>

fun show_nat :: "nat \<Rightarrow> string" where
  "show_nat n =
     (if n < 10 then [''0123456789'' ! n]
      else show_nat (n div 10) @ [''0123456789'' ! (n mod 10)])"

fun join :: "string \<Rightarrow> string list \<Rightarrow> string" where
  "join sep [] = []"
| "join sep [x] = x"
| "join sep (x # y # ys) = x @ sep @ join sep (y # ys)"

section \<open>Query: the external calls\<close>

definition create_query_embedding ::
  "services \<Rightarrow> world \<Rightarrow> string \<Rightarrow> (exn + real list) \<times> world" where
  "create_query_embedding sv w txt =
     (embeddings_create sv txt, record_call (EmbeddingsCreate txt) w)"

text \<open>
  \<open>generate_response\<close>: the system message, the history when there is one, and the user
  message built from context and query.
\<close>

definition generate_response ::
  "services \<Rightarrow> world \<Rightarrow> string \<Rightarrow> string \<Rightarrow> message list \<Rightarrow> (exn + string \<times> int) \<times> world" where
  "generate_response sv w query context history =
     (let messages =
            [\<lparr>role = ''system'', content = system_prompt sv\<rparr>,
             \<lparr>role = ''user'',
              content = user_prompt_head sv @ context @ user_prompt_mid sv @ query
                          @ user_prompt_tail sv\<rparr>];
          messages' =
            (if history \<noteq> [] then [hd messages] @ history @ [last messages] else messages)
      in (chat_completions_create sv messages',
          record_call (ChatCompletionsCreate messages') w))"

text \<open>The \<open>SearchResult\<close> built from one match of the index.\<close>

definition result_of_match :: "pinecone_match \<Rightarrow> SearchResult" where
  "result_of_match m =
     \<lparr>chunk_id = match_id m,
      document_id = (case match_metadata m ''document_id'' of Some d \<Rightarrow> d | None \<Rightarrow> ''''),
      text_sr = (case match_metadata m ''text'' of Some t \<Rightarrow> t | None \<Rightarrow> ''''),
      score_sr = match_score m,
      metadata_sr = match_metadata m\<rparr>"

text \<open>
  \<open>search_pinecone\<close>. The filter goes to the index only when it is given and not empty. An
  exception of \<open>index.query\<close> is not caught here.
\<close>

definition search_pinecone ::
  "config \<Rightarrow> services \<Rightarrow> world \<Rightarrow> real list \<Rightarrow> int \<Rightarrow> (string \<times> string) list option
     \<Rightarrow> (exn + SearchResult list) \<times> world" where
  "search_pinecone cfg sv w query_embedding top_k filter_metadata =
     (let flt = (case filter_metadata of
                   None \<Rightarrow> None
                 | Some f \<Rightarrow> if f \<noteq> [] then Some f else None);
          w' = record_call (IndexQuery query_embedding) w
      in case index_query sv query_embedding top_k flt of
           Inl e \<Rightarrow> (Inl e, w')
         | Inr matches \<Rightarrow>
             (Inr (map result_of_match
                     (filter (\<lambda>m. SIMILARITY_THRESHOLD cfg \<le> match_score m) matches)),
              w'))"

section \<open>Query: the cache\<close>

text \<open>
  \<open>get_cached_response\<close>. The clock is read only when the table has an item for the key;
  an exception of the table call is caught and gives \<open>None\<close>. The table is never written.
\<close>

definition get_cached_response ::
  "config \<Rightarrow> services \<Rightarrow> world \<Rightarrow> string \<Rightarrow> response option \<times> world" where
  "get_cached_response cfg sv w cache_key =
     (if \<not> CACHE_ENABLED cfg then (None, w)
      else
        (let w1 = record_call (TableGetItem cache_key) w
         in if \<not> dynamodb_available sv then (None, w1)
            else
              (case cache_table w1 cache_key of
                 None \<Rightarrow> (None, w1)
               | Some item \<Rightarrow>
                   (let (t, w2) = now sv w1
                    in if t < (case item_expires_at item of Some e \<Rightarrow> e | None \<Rightarrow> 0)
                       then (item_response item, w2)
                       else (None, w2)))))"

text \<open>\<open>cache_response\<close>: the item is written with \<open>expires_at = int(time.time() + CACHE_TTL)\<close>.\<close>

definition cache_response :: "config \<Rightarrow> services \<Rightarrow> world \<Rightarrow> string \<Rightarrow> response \<Rightarrow> world" where
  "cache_response cfg sv w cache_key resp =
     (if \<not> CACHE_ENABLED cfg then w
      else
        (let (t, w1) = now sv w;
             w2 = record_call (TablePutItem cache_key) w1
         in if \<not> dynamodb_available sv then w2
            else w2\<lparr>cache_table :=
                      (cache_table w2)
                        (cache_key \<mapsto>
                           \<lparr>item_response = Some resp,
                            item_expires_at =
                              Some (of_int (py_int (t + of_int (CACHE_TTL cfg))))\<rparr>)\<rparr>))"

section \<open>Query: the pipeline\<close>

definition calculate_query_cost :: "services \<Rightarrow> int \<Rightarrow> int \<Rightarrow> real" where
  "calculate_query_cost sv embedding_tokens llm_tokens =
     (let embedding_cost = (of_int embedding_tokens / 1000000) * (2 / 100);
          llm_cost = (of_int llm_tokens / 1000000) * (40 / 100)
      in py_round sv (embedding_cost + llm_cost) 6)"

text \<open>The entry of \<open>sources\<close> for one search result.\<close>

definition source_of_result :: "services \<Rightarrow> SearchResult \<Rightarrow> source" where
  "source_of_result sv r =
     \<lparr>src_document_id = document_id r,
      src_filename =
        (case metadata_sr r ''filename'' of Some f \<Rightarrow> f | None \<Rightarrow> document_id r),
      src_score = py_round sv (score_sr r) 3,
      src_chunk_id = chunk_id r\<rparr>"

text \<open>Step 4 of \<open>process_query\<close>: the context text and the sources.\<close>

definition build_context :: "services \<Rightarrow> SearchResult list \<Rightarrow> string \<times> source list" where
  "build_context sv search_results =
     (if search_results = [] then (no_documents_context sv, [])
      else
        (join [CHR 0x0A, CHR 0x0A]
           (map (\<lambda>(i, r). ''['' @ show_nat i @ ''] '' @ text_sr r)
              (zip [1..<Suc (length search_results)] search_results)),
         map (source_of_result sv) search_results))"

text \<open>
  \<open>process_query\<close>. The cached dictionary is never empty, so \<open>if cached:\<close> is the test
  that the lookup returned a response. No exception of the three calls is caught here:
  each one ends the function with that exception.
\<close>

definition process_query ::
  "config \<Rightarrow> services \<Rightarrow> world \<Rightarrow> string \<Rightarrow> (string \<times> string) list option \<Rightarrow> message list
     \<Rightarrow> (exn + response \<times> QueryMetrics) \<times> world" where
  "process_query cfg sv w query filter_metadata history =
     (let (start_time, w0) = now sv w;
          cache_key = get_cache_key query;
          (cached, w1) = get_cached_response cfg sv w0 cache_key
      in case cached of
           Some r \<Rightarrow>
             (let (t, w2) = now sv w1
              in (Inr (r, \<lparr>embedding_ms = 0, search_ms = 0, llm_ms = 0,
                           total_ms = (t - start_time) * 1000,
                           tokens_used = 0, cost_usd = 0, cache_hit = True\<rparr>),
                  w2))
         | None \<Rightarrow>
             (let (embed_start, w2) = now sv w1;
                  (emb, w3) = create_query_embedding sv w2 query
              in case emb of
                   Inl e \<Rightarrow> (Inl e, w3)
                 | Inr query_embedding \<Rightarrow>
                     (let embedding_tokens = real (length (split_ws query)) * (13 / 10);
                          (t_embed, w4) = now sv w3;
                          embed_ms = (t_embed - embed_start) * 1000;
                          (search_start, w5) = now sv w4;
                          (found, w6) =
                            search_pinecone cfg sv w5 query_embedding (TOP_K cfg)
                              filter_metadata
                      in case found of
                           Inl e \<Rightarrow> (Inl e, w6)
                         | Inr search_results \<Rightarrow>
                             (let (t_search, w7) = now sv w6;
                                  search_ms' = (t_search - search_start) * 1000;
                                  (context, srcs) = build_context sv search_results;
                                  (llm_start, w8) = now sv w7;
                                  (gen, w9) = generate_response sv w8 query context history
                              in case gen of
                                   Inl e \<Rightarrow> (Inl e, w9)
                                 | Inr (ans, llm_tokens) \<Rightarrow>
                                     (let (t_llm, w10) = now sv w9;
                                          llm_ms' = (t_llm - llm_start) * 1000;
                                          resp = \<lparr>answer = ans, sources = srcs,
                                                  context_used = length search_results\<rparr>;
                                          w11 = cache_response cfg sv w10 cache_key resp;
                                          (t_end, w12) = now sv w11;
                                          total_ms' = (t_end - start_time) * 1000
                                      in (Inr (resp,
                                               \<lparr>embedding_ms = py_round sv embed_ms 2,
                                                search_ms = py_round sv search_ms' 2,
                                                llm_ms = py_round sv llm_ms' 2,
                                                total_ms = py_round sv total_ms' 2,
                                                tokens_used =
                                                  py_int (embedding_tokens + of_int llm_tokens),
                                                cost_usd =
                                                  calculate_query_cost sv
                                                    (py_int embedding_tokens) llm_tokens,
                                                cache_hit = False\<rparr>),
                                          w12))))))"

section \<open>Query: the Lambda handler\<close>

text \<open>
  \<open>handler\<close>, from the decoded request body on. The response is its status code and the
  decoded JSON body; the headers are left out.
\<close>

record request =
  req_query :: string
  req_filter :: "(string \<times> string) list option"
  req_history :: "message list"

datatype body = ErrorBody string | AnswerBody string response QueryMetrics

record http_response =
  statusCode :: nat
  response_body :: body

definition handler :: "config \<Rightarrow> services \<Rightarrow> world \<Rightarrow> request \<Rightarrow> http_response \<times> world" where
  "handler cfg sv w req =
     (let query = strip (req_query req)
      in if query = []
         then (\<lparr>statusCode = 400, response_body = ErrorBody ''Missing 'query' parameter''\<rparr>, w)
         else if 1000 < length query
         then (\<lparr>statusCode = 400,
                response_body = ErrorBody ''Query too long (max 1000 chars)''\<rparr>, w)
         else
           (case process_query cfg sv w query (req_filter req) (req_history req) of
              (Inr (resp, metrics), w') \<Rightarrow>
                (\<lparr>statusCode = 200, response_body = AnswerBody query resp metrics\<rparr>, w')
            | (Inl (Exception msg), w') \<Rightarrow>
                (\<lparr>statusCode = 500, response_body = ErrorBody msg\<rparr>, w')))"

section \<open>Vector store: the managed index\<close>


text \<open>
  The remote index is a service, not code of the repository. It is modelled by what it
  stores: one vector (values and metadata) for each id. \<open>index.upsert\<close> writes the vectors
  of a batch in order, a later one replacing an earlier one of the same id; \<open>index.delete\<close>
  removes the given ids and ignores the ids it does not hold; \<open>index.query\<close> answers with
  the ids and scores that the ranking of the service selects, each with the metadata stored
  for it. The ranking itself is a parameter.
\<close>

record pinecone_vector =
  pv_id :: string
  pv_values :: "real list"
  pv_metadata :: metadata

type_synonym pinecone_index = "string \<rightharpoonup> pinecone_vector"



definition index_delete :: "pinecone_index \<Rightarrow> string list \<Rightarrow> pinecone_index" where
  "index_delete idx ids = (\<lambda>i. if i \<in> set ids then None else idx i)"


text \<open>The object \<open>PineconeDB\<close>: its batch size and the index it is connected to.\<close>

record PineconeDB =
  batch_size :: int
  index :: pinecone_index







text \<open>\<open>PineconeDB.delete\<close>: the count returned is \<open>len(ids)\<close>.\<close>

definition PineconeDB_delete :: "PineconeDB \<Rightarrow> string list \<Rightarrow> int \<times> PineconeDB" where
  "PineconeDB_delete db ids =
     (if ids = [] then (0, db)
      else (int (length ids), db\<lparr>index := index_delete (index db) ids\<rparr>))"

section \<open>Vector store: the relational table\<close>

text \<open>
  The table \<open>embeddings\<close> is a list of rows with \<open>id\<close> as primary key. The SQL statements
  are modelled by what they do to it: \<open>INSERT ... ON CONFLICT (id) DO UPDATE\<close> replaces the
  row of the id or adds one; \<open>DELETE ... WHERE id IN (...)\<close> removes the rows named and
  reports their number as \<open>rowcount\<close>. \<open>PgVectorDB.search\<close> is not part of the model: it
  hands its parameters over as \<open>[query_vector, values..., top_k, query_vector]\<close> to a statement
  whose placeholders stand, in this order, in the score, in the conditions, after
  \<open>ORDER BY embedding <=>\<close> and after \<open>LIMIT\<close>: the \<open>top_k\<close> is bound where the ordering
  expects the vector and the vector where the limit is expected, and what the database
  answers to that is not settled by the source.
\<close>

record pg_row =
  row_embedding :: "real list"
  row_text :: string
  row_metadata :: metadata

type_synonym pg_table = "(string \<times> pg_row) list"


definition sql_delete :: "pg_table \<Rightarrow> string list \<Rightarrow> pg_table \<times> int" where
  "sql_delete tbl ids =
     (filter (\<lambda>(k, r). k \<notin> set ids) tbl,
      int (length (filter (\<lambda>(k, r). k \<in> set ids) tbl)))"

record PgVectorDB =
  dimensions :: int
  pg_rows :: pg_table



text \<open>\<open>PgVectorDB.delete\<close>: the count returned is \<open>cur.rowcount\<close>.\<close>

definition PgVectorDB_delete :: "PgVectorDB \<Rightarrow> string list \<Rightarrow> int \<times> PgVectorDB" where
  "PgVectorDB_delete db ids =
     (if ids = [] then (0, db)
      else (let (tbl, rowcount) = sql_delete (pg_rows db) ids
            in (rowcount, db\<lparr>pg_rows := tbl\<rparr>)))"

section \<open>A concrete environment\<close>

text \<open>
  Services that answer every call: the index returns three matches in descending order of
  score, the last one below the default threshold. The clock advances by one second at
  every reading. Rounding is that of the exact value to the given number of decimals,
  ties to even.
\<close>

definition round_half_even :: "real \<Rightarrow> int" where
  "round_half_even x =
     (let f = \<lfloor>x\<rfloor>; d = x - of_int f
      in if d < 1 / 2 then f
         else if 1 / 2 < d then f + 1
         else if even f then f else f + 1)"

definition decimal_round :: "real \<Rightarrow> nat \<Rightarrow> real" where
  "decimal_round x n = of_int (round_half_even (x * 10 ^ n)) / 10 ^ n"

definition demo_matches :: "pinecone_match list" where
  "demo_matches =
     [\<lparr>match_id = ''c1'', match_score = 9 / 10,
       match_metadata =
         [''document_id'' \<mapsto> ''d1'', ''text'' \<mapsto> ''alpha'', ''filename'' \<mapsto> ''a.txt'']\<rparr>,
      \<lparr>match_id = ''c2'', match_score = 3 / 4,
       match_metadata = [''document_id'' \<mapsto> ''d2'', ''text'' \<mapsto> ''beta'']\<rparr>,
      \<lparr>match_id = ''c3'', match_score = 1 / 2, match_metadata = Map.empty\<rparr>]"

definition demo_services :: services where
  "demo_services =
     \<lparr>embeddings_create = (\<lambda>q. Inr [1, 0]),
      index_query = (\<lambda>v k f. Inr demo_matches),
      chat_completions_create = (\<lambda>ms. Inr (''an answer'', 120)),
      dynamodb_available = True,
      clock = (\<lambda>n. 1000 + real n),
      py_round = decimal_round,
      system_prompt = ''system'',
      user_prompt_head = ''context: '',
      user_prompt_mid = '' question: '',
      user_prompt_tail = '' answer:'',
      no_documents_context = ''no documents''\<rparr>"

text \<open>The same services with an index that returns a lower score before a higher one.\<close>

definition unsorted_matches :: "pinecone_match list" where
  "unsorted_matches =
     [\<lparr>match_id = ''c2'', match_score = 3 / 4,
       match_metadata = [''document_id'' \<mapsto> ''d2'', ''text'' \<mapsto> ''beta'']\<rparr>,
      \<lparr>match_id = ''c1'', match_score = 1,
       match_metadata = [''document_id'' \<mapsto> ''d1'', ''text'' \<mapsto> ''alpha'']\<rparr>]"

definition unsorted_index_services :: services where
  "unsorted_index_services = demo_services\<lparr>index_query := (\<lambda>v k f. Inr unsorted_matches)\<rparr>"

text \<open>The same services with a vector index that cannot be reached.\<close>

definition unreachable_index_services :: services where
  "unreachable_index_services =
     demo_services\<lparr>index_query := (\<lambda>v k f. Inl (Exception ''connection refused''))\<rparr>"

definition demo_world :: world where
  "demo_world = \<lparr>cache_table = Map.empty, clock_reads = 0, calls = []\<rparr>"

definition demo_response :: response where
  "demo_response = \<lparr>answer = ''cached answer'', sources = [], context_used = 0\<rparr>"

text \<open>A world whose cache table holds an entry for a key, expiring at the given time.\<close>

definition cached_world :: "string \<Rightarrow> real \<Rightarrow> world" where
  "cached_world key expires =
     \<lparr>cache_table =
        [key \<mapsto> \<lparr>item_response = Some demo_response, item_expires_at = Some expires\<rparr>],
      clock_reads = 0, calls = []\<rparr>"

section \<open>A concrete vector store\<close>






text \<open>An index that holds one vector, of id \<open>a\<close>.\<close>

definition one_vector_pinecone :: PineconeDB where
  "one_vector_pinecone =
     \<lparr>batch_size = 100,
      index = [''a'' \<mapsto> \<lparr>pv_id = ''a'', pv_values = [1, 0], pv_metadata = Map.empty\<rparr>]\<rparr>"

definition one_row_pgvector :: PgVectorDB where
  "one_row_pgvector =
     \<lparr>dimensions = 1536,
      pg_rows = [(''a'', \<lparr>row_embedding = [1, 0], row_text = ''t'',
                            row_metadata = Map.empty\<rparr>)]\<rparr>"

section \<open>Properties of the chunker\<close>

lemma chunk_step_indices:
  assumes "map chunk_index (chunks st) = [0..<length (chunks st)]"
  shows "map chunk_index (chunks (chunk_step cs ov st s)) =
           [0..<length (chunks (chunk_step cs ov st s))]"
  using assms by (simp add: chunk_step_def Let_def)

lemma foldl_chunk_step_indices:
  "map chunk_index (chunks st) = [0..<length (chunks st)] \<Longrightarrow>
   map chunk_index (chunks (foldl (chunk_step cs ov) st ss)) =
     [0..<length (chunks (foldl (chunk_step cs ov) st ss))]"
proof (induction ss arbitrary: st)
  case Nil
  then show ?case by simp
next
  case (Cons s ss)
  show ?case
    unfolding foldl_Cons
    by (rule Cons.IH) (rule chunk_step_indices [OF Cons.prems])
qed

lemma chunk_finish_indices:
  "map chunk_index (chunks st) = [0..<length (chunks st)] \<Longrightarrow>
   map chunk_index (chunk_finish st) = [0..<length (chunk_finish st)]"
  by (simp add: chunk_finish_def)

text \<open>
  Claim C8. Whatever the text and the parameters, the chunks that \<open>chunk_text\<close> returns
  carry the indices 0, 1, ..., n - 1 in the order of emission, n being their number: no
  gap and no repeat.
\<close>

theorem chunk_text_indices:
  "map chunk_index (chunk_text txt chunk_size overlap) =
     [0..<length (chunk_text txt chunk_size overlap)]"
  unfolding chunk_text_def chunk_loop_def
  by (rule chunk_finish_indices, rule foldl_chunk_step_indices) (simp add: chunk_init_def)

lemma sentence_end_not_space: "is_sentence_end c \<Longrightarrow> \<not> isspace c"
  by (auto simp: is_sentence_end_def isspace_def)

lemma split_from_blank:
  "\<forall>c \<in> set rest. isspace c \<Longrightarrow> split_from cur rest = [cur @ rest]"
proof (induction rest arbitrary: cur)
  case Nil
  then show ?case by simp
next
  case (Cons c cs)
  from Cons.prems have "\<not> is_sentence_end c"
    using sentence_end_not_space by auto
  with Cons show ?case by simp
qed

lemma strip_blank:
  assumes "\<forall>c \<in> set s. isspace c"
  shows "strip s = []"
  using assms by (auto simp: strip_def lstrip_def rstrip_def dest: set_dropWhileD)

text \<open>
  Claim C9. A text that is empty or holds only whitespace gives the empty list of chunks,
  for every chunk size and overlap; nothing is raised, \<open>chunk_text\<close> being total.
\<close>

theorem chunk_text_blank:
  assumes "\<forall>c \<in> set txt. isspace c"
  shows "chunk_text txt chunk_size overlap = []"
proof -
  have "split_sentences txt = [txt]"
    using split_from_blank [OF assms, of "[]"] by (simp add: split_sentences_def)
  then have "current_text (chunk_loop chunk_size overlap (split_sentences txt)) = txt"
    and "chunks (chunk_loop chunk_size overlap (split_sentences txt)) = []"
    by (simp_all add: chunk_loop_def chunk_step_def chunk_init_def)
  then show ?thesis
    using strip_blank [OF assms] by (simp add: chunk_text_def chunk_finish_def)
qed

theorem chunk_text_blank_witness:
  "isspace (CHR '' '') \<and> chunk_text '' '' 1000 200 = [] \<and> chunk_text '''' 1000 200 = []"
  using chunk_text_blank [of "'' ''" 1000 200] chunk_text_blank [of "''''" 1000 200]
  by (simp add: isspace_def)

lemma chunk_step_length:
  "length (chunks (chunk_step cs ov st s)) \<le> Suc (length (chunks st))"
  by (simp add: chunk_step_def Let_def)

lemma foldl_chunk_step_length:
  "length (chunks (foldl (chunk_step cs ov) st ss)) \<le> length (chunks st) + length ss"
proof (induction ss arbitrary: st)
  case Nil
  then show ?case by simp
next
  case (Cons s ss)
  have "length (chunks (foldl (chunk_step cs ov) (chunk_step cs ov st s) ss))
          \<le> length (chunks (chunk_step cs ov st s)) + length ss"
    by (rule Cons.IH)
  also have "\<dots> \<le> Suc (length (chunks st)) + length ss"
    using chunk_step_length [of cs ov st s] by simp
  finally show ?case by simp
qed

lemma chunk_step_init_chunks: "chunks (chunk_step cs ov chunk_init s) = []"
  by (simp add: chunk_step_def chunk_init_def)

lemma split_from_nonempty: "split_from cur rest \<noteq> []"
  by (induction cur rest rule: split_from.induct) auto

lemma chunk_finish_length: "length (chunk_finish st) \<le> Suc (length (chunks st))"
  by (simp add: chunk_finish_def)

lemma chunk_text_length:
  "length (chunk_text txt cs ov) \<le> length (split_sentences txt)"
proof -
  obtain s ss where ss: "split_sentences txt = s # ss"
    using split_from_nonempty [of "[]" "txt"]
    by (cases "split_sentences txt") (auto simp: split_sentences_def)
  have "length (chunks (chunk_loop cs ov (s # ss))) \<le> length ss"
    using foldl_chunk_step_length [of cs ov "chunk_step cs ov chunk_init s" ss]
    by (simp add: chunk_loop_def chunk_step_init_chunks)
  then show ?thesis
    using chunk_finish_length [of "chunk_loop cs ov (s # ss)"]
    by (simp add: chunk_text_def ss)
qed

lemmas chunk_eval =
  chunk_text_def chunk_finish_def chunk_loop_def chunk_step_def chunk_init_def
  split_sentences_def strip_def lstrip_def rstrip_def isspace_def is_sentence_end_def Let_def

lemma chunk_loop_snoc:
  "chunk_loop cs ov (ss @ [s]) = chunk_step cs ov (chunk_loop cs ov ss) s"
  by (simp add: chunk_loop_def)

lemma chunk_step_closes:
  assumes "current_text st \<noteq> []"
    and "cs < int (length (current_text st)) + int (length s)"
  shows "current_text (chunk_step cs ov st s) =
           drop (length (current_text st) - nat ov) (current_text st) @ '' '' @ s"
proof -
  have "nat (max 0 (int (length (current_text st)) - ov)) = length (current_text st) - nat ov
          \<or> (ov < 0 \<and> length (current_text st) \<le> nat (max 0 (int (length (current_text st)) - ov)))"
    by auto
  then have "drop (nat (max 0 (int (length (current_text st)) - ov))) (current_text st)
               = drop (length (current_text st) - nat ov) (current_text st)"
    by auto
  then show ?thesis
    using assms by (simp add: chunk_step_def Let_def)
qed

text \<open>
  Claim C3, as stated, fails: with chunk size 5 the overlap 10 does not behave as the
  overlap 4 would. The second chunk carries the whole closed buffer over, where a cap at
  chunk size minus one would carry its last four characters.
\<close>

theorem chunk_text_overlap_not_capped:
  "chunk_text ''abcdefgh. xy. z'' 5 10 \<noteq> chunk_text ''abcdefgh. xy. z'' 5 (5 - 1)"
  by (simp add: chunk_eval)

text \<open>
  Claim C3, amended. With an overlap of at least the chunk size \<open>chunk_text\<close> still
  returns, with at most as many chunks as there are sentences. The overlap is used as
  given: at every sentence that closes a chunk (the buffer is not empty and would grow
  beyond the chunk size) the new buffer is the last \<open>overlap\<close> characters of the closed
  buffer, a space and the sentence; it is the whole closed buffer, a space and the
  sentence whenever the closed buffer has at most \<open>chunk_size\<close> characters.
\<close>

theorem chunk_text_large_overlap:
  assumes "chunk_size \<le> overlap"
  shows "length (chunk_text txt chunk_size overlap) \<le> length (split_sentences txt)
         \<and> (\<forall>k < length (split_sentences txt).
               current_text (chunk_loop chunk_size overlap (take k (split_sentences txt))) \<noteq> []
               \<and> chunk_size
                   < int (length (current_text
                            (chunk_loop chunk_size overlap (take k (split_sentences txt)))))
                     + int (length (split_sentences txt ! k))
               \<longrightarrow>
                 current_text (chunk_loop chunk_size overlap (take (Suc k) (split_sentences txt)))
                   = drop (length (current_text
                              (chunk_loop chunk_size overlap (take k (split_sentences txt))))
                           - nat overlap)
                       (current_text (chunk_loop chunk_size overlap (take k (split_sentences txt))))
                     @ '' '' @ split_sentences txt ! k
                 \<and> (int (length (current_text
                             (chunk_loop chunk_size overlap (take k (split_sentences txt)))))
                      \<le> chunk_size
                    \<longrightarrow>
                      current_text
                          (chunk_loop chunk_size overlap (take (Suc k) (split_sentences txt)))
                        = current_text
                            (chunk_loop chunk_size overlap (take k (split_sentences txt)))
                          @ '' '' @ split_sentences txt ! k))"
proof (intro conjI allI impI)
  show "length (chunk_text txt chunk_size overlap) \<le> length (split_sentences txt)"
    by (rule chunk_text_length)
next
  fix k
  let ?ss = "split_sentences txt"
  let ?st = "chunk_loop chunk_size overlap (take k ?ss)"
  assume k: "k < length ?ss"
    and closes: "current_text ?st \<noteq> []
                   \<and> chunk_size < int (length (current_text ?st)) + int (length (?ss ! k))"
  have step: "chunk_loop chunk_size overlap (take (Suc k) ?ss)
                = chunk_step chunk_size overlap ?st (?ss ! k)"
    using k by (simp add: take_Suc_conv_app_nth chunk_loop_snoc)
  show carried: "current_text (chunk_loop chunk_size overlap (take (Suc k) ?ss))
                   = drop (length (current_text ?st) - nat overlap) (current_text ?st)
                       @ '' '' @ ?ss ! k"
    unfolding step using closes by (simp add: chunk_step_closes)
  assume short: "int (length (current_text ?st)) \<le> chunk_size"
  with assms have "length (current_text ?st) - nat overlap = 0"
    by simp
  then show "current_text (chunk_loop chunk_size overlap (take (Suc k) ?ss))
               = current_text ?st @ '' '' @ ?ss ! k"
    using carried by simp
qed

theorem chunk_text_large_overlap_witness:
  "(3 :: int) \<le> 7
     \<and> split_sentences ''ab. cd. ef'' = [''ab.'', ''cd.'', ''ef'']
     \<and> current_text (chunk_loop 3 7 (take 1 (split_sentences ''ab. cd. ef''))) = ''ab.''
     \<and> current_text (chunk_loop 3 7 (take 2 (split_sentences ''ab. cd. ef''))) = ''ab. cd.''
     \<and> map text_tc (chunk_text ''ab. cd. ef'' 3 7) = [''ab.'', ''ab. cd.'', ''ab. cd. ef'']
     \<and> length (chunk_text ''ab. cd. ef'' 3 7) \<le> length (split_sentences ''ab. cd. ef'')"
proof -
  have ss: "split_sentences ''ab. cd. ef'' = [''ab.'', ''cd.'', ''ef'']"
    by (simp add: split_sentences_def is_sentence_end_def isspace_def)
  have first: "current_text (chunk_loop 3 7 (take 1 (split_sentences ''ab. cd. ef''))) = ''ab.''"
    by (simp add: ss chunk_loop_def chunk_step_def chunk_init_def)
  have le: "(3 :: int) \<le> 7"
    by simp
  note inst = chunk_text_large_overlap [OF le, of "''ab. cd. ef''"]
  note at1 = inst [THEN conjunct2, rule_format, of 1]
  have second: "current_text (chunk_loop 3 7 (take 2 (split_sentences ''ab. cd. ef'')))
                  = ''ab. cd.''"
  proof -
    have "current_text (chunk_loop 3 7 (take (Suc 1) (split_sentences ''ab. cd. ef'')))
            = current_text (chunk_loop 3 7 (take 1 (split_sentences ''ab. cd. ef'')))
                @ '' '' @ split_sentences ''ab. cd. ef'' ! 1"
      using at1 first by (simp add: ss)
    then show ?thesis
      using first by (simp add: ss)
  qed
  have out: "map text_tc (chunk_text ''ab. cd. ef'' 3 7) = [''ab.'', ''ab. cd.'', ''ab. cd. ef'']"
    by (simp add: chunk_eval)
  show ?thesis
    using ss first second out inst by simp
qed

section \<open>Properties of the query cache\<close>

text \<open>
  Claim C6. When the cache table holds an item for the key and its \<open>expires_at\<close> is at or
  before the time read by the lookup, \<open>get_cached_response\<close> returns no response, and the
  table is left as it was: the expired item is still stored.
\<close>

theorem get_cached_response_expired:
  assumes "cache_table w key = Some item"
    and "item_expires_at item = Some e"
    and "e \<le> clock sv (clock_reads w)"
  shows "fst (get_cached_response cfg sv w key) = None
           \<and> cache_table (snd (get_cached_response cfg sv w key)) = cache_table w"
  using assms
  by (simp add: get_cached_response_def now_def record_call_def Let_def)

theorem get_cached_response_expired_witness:
  "cache_table (cached_world ''k'' 1000) ''k''
       = Some \<lparr>item_response = Some demo_response, item_expires_at = Some 1000\<rparr>
     \<and> (1000 :: real) \<le> clock demo_services (clock_reads (cached_world ''k'' 1000))
     \<and> fst (get_cached_response default_config demo_services (cached_world ''k'' 1000) ''k'') = None
     \<and> cache_table (snd (get_cached_response default_config demo_services
                            (cached_world ''k'' 1000) ''k'')) ''k''
         = Some \<lparr>item_response = Some demo_response, item_expires_at = Some 1000\<rparr>"
  using get_cached_response_expired
    [of "cached_world ''k'' 1000" "''k''"
        "\<lparr>item_response = Some demo_response, item_expires_at = Some 1000\<rparr>" 1000
        demo_services default_config]
  by (simp add: cached_world_def demo_services_def)

section \<open>Properties of the pipeline\<close>

text \<open>
  Claim C5. When the lookup that \<open>process_query\<close> makes (after its first reading of the
  clock) returns a cached response, \<open>process_query\<close> returns that response with
  \<open>cache_hit\<close> set, the three stage times, the tokens and the cost all 0. The only call
  it makes to the outside is the read of the cache table: no embedding, no search and no
  generation; the cache table is not written.
\<close>

theorem process_query_cache_hit:
  assumes "fst (get_cached_response cfg sv (snd (now sv w)) (get_cache_key query)) = Some r"
  shows "\<exists>m w'. process_query cfg sv w query flt history = (Inr (r, m), w')
           \<and> cache_hit m \<and> embedding_ms m = 0 \<and> search_ms m = 0 \<and> llm_ms m = 0
           \<and> tokens_used m = 0 \<and> cost_usd m = 0
           \<and> calls w' = calls w @ [TableGetItem (get_cache_key query)]
           \<and> cache_table w' = cache_table w"
  using assms
  by (auto simp: process_query_def get_cached_response_def now_def record_call_def Let_def
           split: prod.splits option.splits if_splits)

theorem process_query_cache_hit_witness:
  "fst (get_cached_response default_config demo_services
          (snd (now demo_services (cached_world (get_cache_key ''hello'') 5000)))
          (get_cache_key ''hello'')) = Some demo_response
     \<and> (\<exists>m w'. process_query default_config demo_services
                   (cached_world (get_cache_key ''hello'') 5000) ''hello'' None []
                 = (Inr (demo_response, m), w')
               \<and> cache_hit m \<and> embedding_ms m = 0 \<and> search_ms m = 0 \<and> llm_ms m = 0
               \<and> tokens_used m = 0 \<and> cost_usd m = 0
               \<and> calls w' = [TableGetItem (get_cache_key ''hello'')])"
proof -
  have hit: "fst (get_cached_response default_config demo_services
                    (snd (now demo_services (cached_world (get_cache_key ''hello'') 5000)))
                    (get_cache_key ''hello'')) = Some demo_response"
    by (simp add: get_cached_response_def now_def record_call_def cached_world_def
          demo_services_def default_config_def)
  show ?thesis
    using hit process_query_cache_hit [OF hit, of None "[]"]
    by (auto simp: cached_world_def)
qed





lemmas query_eval =
  process_query_def get_cached_response_def cache_response_def now_def record_call_def
  create_query_embedding_def search_pinecone_def generate_response_def build_context_def
  result_of_match_def source_of_result_def calculate_query_cost_def
  decimal_round_def round_half_even_def py_int_def split_ws_def isspace_def Let_def

lemmas demo_eval =
  demo_services_def unreachable_index_services_def unsorted_index_services_def
  demo_world_def demo_matches_def unsorted_matches_def default_config_def




text \<open>
  Claim C1, as stated, fails: when the call to the vector index raises, the handler does
  not answer in a degraded mode. The caller gets the status 500 with the message of the
  exception.
\<close>

theorem handler_unreachable_index:
  "fst (handler default_config unreachable_index_services demo_world
          \<lparr>req_query = ''refund policy'', req_filter = None, req_history = []\<rparr>)
     = \<lparr>statusCode = 500, response_body = ErrorBody ''connection refused''\<rparr>"
  by (simp add: handler_def strip_def lstrip_def rstrip_def query_eval demo_eval)

text \<open>
  Claim C1, amended. For a valid query that is not answered from the cache and whose
  embedding succeeds, an exception of the vector index call is caught by nothing before the
  handler: the handler reports the status 500 with the message of the exception as the
  error, gives no answer, and the cache table is left as it was.
\<close>

theorem handler_search_exception:
  assumes "strip (req_query req) \<noteq> []"
    and "length (strip (req_query req)) \<le> 1000"
    and "fst (get_cached_response cfg sv (snd (now sv w))
                (get_cache_key (strip (req_query req)))) = None"
    and "embeddings_create sv (strip (req_query req)) = Inr v"
    and "index_query sv v (TOP_K cfg)
           (case req_filter req of
              None \<Rightarrow> None
            | Some f \<Rightarrow> if f \<noteq> [] then Some f else None)
         = Inl (Exception msg)"
  shows "fst (handler cfg sv w req) = \<lparr>statusCode = 500, response_body = ErrorBody msg\<rparr>
           \<and> cache_table (snd (handler cfg sv w req)) = cache_table w"
  using assms
  by (auto simp: handler_def process_query_def get_cached_response_def now_def
        record_call_def create_query_embedding_def search_pinecone_def Let_def
      split: prod.splits option.splits sum.splits if_splits)

theorem handler_search_exception_witness:
  "strip ''refund policy'' \<noteq> []
     \<and> length (strip ''refund policy'') \<le> 1000
     \<and> fst (get_cached_response default_config unreachable_index_services
               (snd (now unreachable_index_services demo_world))
               (get_cache_key (strip ''refund policy''))) = None
     \<and> fst (handler default_config unreachable_index_services demo_world
               \<lparr>req_query = ''refund policy'', req_filter = None, req_history = []\<rparr>)
         = \<lparr>statusCode = 500, response_body = ErrorBody ''connection refused''\<rparr>
     \<and> cache_table (snd (handler default_config unreachable_index_services demo_world
               \<lparr>req_query = ''refund policy'', req_filter = None, req_history = []\<rparr>))
         = Map.empty"
proof -
  have q: "strip ''refund policy'' = ''refund policy''"
    by (simp add: strip_def lstrip_def rstrip_def isspace_def)
  have miss: "fst (get_cached_response default_config unreachable_index_services
                     (snd (now unreachable_index_services demo_world))
                     (get_cache_key (strip ''refund policy''))) = None"
    by (simp add: get_cached_response_def now_def record_call_def demo_eval)
  show ?thesis
    using q miss
      handler_search_exception
        [of "\<lparr>req_query = ''refund policy'', req_filter = None, req_history = []\<rparr>"
            default_config unreachable_index_services demo_world "[1, 0]"
            "''connection refused''"]
    by (simp add: demo_eval)
qed

section \<open>Properties of the cache key\<close>

lemma replicate_numeral: "replicate (numeral k) x = x # replicate (pred_numeral k) x"
  by (simp add: numeral_eq_Suc)

lemmas sha_eval =
  sha256_def sha256_compress_def sha256_round_def sha256_K_def sha256_H0_def
  schedule_def schedule_step_def sigma0_def sigma1_def Sigma0_def Sigma1_def Ch_def Maj_def
  rotr_def sha256_pad_def length_bytes_def encode_def hexdigest_def hex32_def
  replicate_numeral

lemmas normalize_eval =
  lower_def lower_char_def strip_def lstrip_def rstrip_def isspace_def char_of_def bit_0

lemma normalize_Hello: "strip (lower '' Hello '') = ''hello''"
  by (simp add: normalize_eval)

lemma normalize_hello: "strip (lower ''hello'') = ''hello''"
  by (simp add: normalize_eval)

lemma normalize_Goodbye: "strip (lower ''Goodbye'') = ''goodbye''"
  by (simp add: normalize_eval)

lemma key_of_hello:
  "take 32 (hexdigest (sha256 (encode ''hello''))) = ''2cf24dba5fb0a30e26e83b2ac5b9e29e''"
  by (simp add: sha_eval)

lemma key_of_goodbye:
  "take 32 (hexdigest (sha256 (encode ''goodbye''))) = ''82e35a63ceba37e9646434c5dd412ea5''"
  by (simp add: sha_eval)

lemma finite_cache_keys: "finite (range get_cache_key)"
proof -
  have "range get_cache_key \<subseteq> {xs. set xs \<subseteq> (UNIV :: char set) \<and> length xs \<le> 32}"
    by (auto simp: get_cache_key_def Let_def)
  moreover have "finite {xs. set xs \<subseteq> (UNIV :: char set) \<and> length xs \<le> 32}"
    by (rule finite_lists_length_le) simp
  ultimately show ?thesis
    by (rule finite_subset)
qed

lemma normalize_letters:
  "strip (lower (replicate n (CHR ''a''))) = replicate n (CHR ''a'')"
proof -
  have l: "lower_char (CHR ''a'') = CHR ''a''"
    by (simp add: lower_char_def)
  have s: "\<not> isspace (CHR ''a'')"
    by (simp add: isspace_def)
  have d: "dropWhile isspace (replicate n (CHR ''a'')) = replicate n (CHR ''a'')"
    using s by (induction n) simp_all
  show ?thesis
    using s by (simp add: lower_def l strip_def lstrip_def rstrip_def d)
qed

text \<open>
  Claim C7, as stated, fails in its last part: a key is at most 32 characters, so the
  keys are finitely many, and the texts \<open>a\<close>, \<open>aa\<close>, \<open>aaa\<close>, ..., each its own normal
  form, cannot all have different keys.
\<close>

theorem get_cache_key_collides:
  "\<not> (\<forall>q1 q2. strip (lower q1) \<noteq> strip (lower q2) \<longrightarrow> get_cache_key q1 \<noteq> get_cache_key q2)"
proof
  assume sep: "\<forall>q1 q2. strip (lower q1) \<noteq> strip (lower q2)
                 \<longrightarrow> get_cache_key q1 \<noteq> get_cache_key q2"
  let ?f = "\<lambda>n. get_cache_key (replicate n (CHR ''a''))"
  have "inj ?f"
  proof (rule injI)
    fix m n
    assume "?f m = ?f n"
    with sep have "strip (lower (replicate m (CHR ''a''))) = strip (lower (replicate n (CHR ''a'')))"
      by blast
    then have "replicate m (CHR ''a'') = replicate n (CHR ''a'')"
      by (simp only: normalize_letters)
    then have "length (replicate m (CHR ''a'')) = length (replicate n (CHR ''a''))"
      by (rule arg_cong)
    then show "m = n" by simp
  qed
  moreover have "finite (range ?f)"
    by (rule finite_subset [OF _ finite_cache_keys]) auto
  ultimately have "finite (UNIV :: nat set)"
    by (rule finite_imageD [rotated])
  then show False by simp
qed

text \<open>
  Claim C7, amended. \<open>get_cache_key\<close> hashes the lower-cased, stripped query, so two
  queries with the same normal form have the same key; the key of \<open>" Hello "\<close> is the key
  of \<open>"hello"\<close>, and the key of \<open>"Goodbye"\<close>, whose normal form is another one, is a
  different key.
\<close>

theorem get_cache_key_normalized:
  "(strip (lower q1) = strip (lower q2) \<longrightarrow> get_cache_key q1 = get_cache_key q2)
     \<and> get_cache_key '' Hello '' = get_cache_key ''hello''
     \<and> strip (lower ''Goodbye'') \<noteq> strip (lower ''hello'')
     \<and> get_cache_key ''Goodbye'' \<noteq> get_cache_key ''hello''"
  by (simp add: get_cache_key_def normalize_Hello normalize_hello normalize_Goodbye
        key_of_hello key_of_goodbye)

theorem get_cache_key_normalized_witness:
  "strip (lower ''HELLO  '') = strip (lower ''hello'')
     \<and> get_cache_key ''HELLO  '' = get_cache_key ''hello''
     \<and> get_cache_key ''hello'' = ''2cf24dba5fb0a30e26e83b2ac5b9e29e''"
  using get_cache_key_normalized [of "''HELLO  ''" "''hello''"]
  by (simp add: get_cache_key_def normalize_hello key_of_hello)
     (simp add: normalize_eval)

section \<open>Properties of the vector store\<close>

lemma sql_delete_rowcount:
  "snd (sql_delete tbl ids) = int (length tbl) - int (length (fst (sql_delete tbl ids)))"
  by (induction tbl) (auto simp: sql_delete_def)

text \<open>
  The relational variant counts what it deleted: the count is the number of rows by which
  the table shrank.
\<close>

lemma PgVectorDB_delete_count:
  "fst (PgVectorDB_delete db ids) =
     int (length (pg_rows db)) - int (length (pg_rows (snd (PgVectorDB_delete db ids))))"
  using sql_delete_rowcount [of "pg_rows db" ids]
  by (cases "sql_delete (pg_rows db) ids") (simp add: PgVectorDB_delete_def)

text \<open>
  Claim C2 holds for the relational variant and fails for the managed index. Deleting the
  ids \<open>a\<close>, \<open>ghost\<close>, \<open>ghost\<close> from a store that holds only \<open>a\<close> succeeds in both and
  empties both, one record being deleted; \<open>PgVectorDB.delete\<close> returns 1, and
  \<open>PineconeDB.delete\<close> returns 3, the length of the list of ids.
\<close>

theorem PineconeDB_delete_counts_requested_ids:
  "fst (PineconeDB_delete one_vector_pinecone [''a'', ''ghost'', ''ghost'']) = 3
     \<and> index (snd (PineconeDB_delete one_vector_pinecone [''a'', ''ghost'', ''ghost'']))
         = Map.empty
     \<and> fst (PgVectorDB_delete one_row_pgvector [''a'', ''ghost'', ''ghost'']) = 1
     \<and> pg_rows (snd (PgVectorDB_delete one_row_pgvector [''a'', ''ghost'', ''ghost''])) = []"
  by (simp add: PineconeDB_delete_def PgVectorDB_delete_def index_delete_def sql_delete_def
        one_vector_pinecone_def one_row_pgvector_def fun_eq_iff)

















end
